theory Spec2Isabelle
  imports Main "HOL-Library.AList"
begin

section \<open>The shared key/value store and the outside world\<close>

text \<open>
  The gateway talks to a Redis server through go-redis and to the chat platform through
  discordgo. Both are outside the program; they are modelled as an explicit \<open>world\<close>
  that every function takes and returns.

  \<^item> \<open>clock\<close> is the store's clock in milliseconds. A call of the program is instantaneous
    on this clock; time passes between calls (\<open>advance\<close>).
  \<^item> \<open>faults\<close> is the script of transport failures: each Redis command consumes one flag
    (none left: the command goes through). A faulted command changes nothing in the store
    and returns an error.
  \<^item> \<open>locks\<close> holds the admission counters. The key \<open>rediskey.GuildTokenLock(guild, token)\<close>
    is represented by the pair it is built from; an entry is the integer value and the
    expiry instant, if any.
  \<^item> \<open>guildTokens\<close> holds the set stored under \<open>rediskey.GuildTokensKey(guild)\<close>.
  \<^item> \<open>jobs\<close> is the shared list of inbound events, \<open>tasks\<close> the list of capture tasks of one
    connect code, \<open>tokenLocks\<close> the identity secrets whose token lock is held.
  \<^item> \<open>trace\<close> records every command sent to the store or to the platform, in order;
    \<open>logs\<close> records what the loggers were given.
\<close>

datatype rerror = RedisNil | RedisErr string

datatype logentry = LogInfo string | LogError string | LogPrintln string

datatype session = Session string

datatype DiscordMessageType = GuildCreate | GuildDelete | VoiceStateUpdate

record ModifyTask =
  TaskID :: string
  TaskGuildID :: nat
  TaskUserID :: nat
  TaskDeaf :: bool
  TaskMute :: bool

datatype cmd =
    INCR string string
  | EXPIRE string string nat
  | SET string string int int
  | SREM string string
  | SADD string string
  | SUBSCRIBE string
  | PUBSUB_CLOSE string
  | PUSH_TASK string ModifyTask nat
  | PUSH_MESSAGE DiscordMessageType string
  | WAIT_FOR_TOKEN string
  | LOCK_FOR_TOKEN string
  | DISCORD_NEW string
  | SESSION_OPEN session
  | SESSION_CLOSE session
  | STOP_ALL
  | APPLY_MUTE_DEAF session string string bool bool
  | PURGE_OLD_GUILD_GAMES string

record world =
  clock :: nat
  faults :: "bool list"
  locks :: "string \<times> string \<Rightarrow> (int \<times> nat option) option"
  guildTokens :: "string \<Rightarrow> string set"
  jobs :: "(DiscordMessageType \<times> string) list"
  tasks :: "string \<Rightarrow> ModifyTask list"
  tokenLocks :: "string set"
  trace :: "cmd list"
  logs :: "logentry list"

definition advance :: "nat \<Rightarrow> world \<Rightarrow> world" where
  "advance d w = w\<lparr>clock := clock w + d\<rparr>"

definition logmsg :: "logentry \<Rightarrow> world \<Rightarrow> world" where
  "logmsg l w = w\<lparr>logs := logs w @ [l]\<rparr>"

text \<open>A command to the platform: recorded, never subject to the store's faults.\<close>

definition extern :: "cmd \<Rightarrow> world \<Rightarrow> world" where
  "extern c w = w\<lparr>trace := trace w @ [c]\<rparr>"

text \<open>A command to the store: recorded, and the next fault flag says whether it fails.\<close>

definition issue :: "cmd \<Rightarrow> world \<Rightarrow> bool \<times> world" where
  "issue c w =
     (case faults w of
        [] \<Rightarrow> (False, w\<lparr>trace := trace w @ [c]\<rparr>)
      | f # fs \<Rightarrow> (f, w\<lparr>faults := fs, trace := trace w @ [c]\<rparr>))"

definition transport :: rerror where
  "transport = RedisErr ''transport error''"

text \<open>
  Redis considers a key expired once the clock is past its expiry instant
  (\<open>now > when\<close>); an expired key is as good as absent.
\<close>

definition expired :: "nat \<Rightarrow> nat option \<Rightarrow> bool" where
  "expired now e = (case e of None \<Rightarrow> False | Some t \<Rightarrow> t < now)"

definition getLock :: "world \<Rightarrow> string \<times> string \<Rightarrow> (int \<times> nat option) option" where
  "getLock w k =
     (case locks w k of
        None \<Rightarrow> None
      | Some (v, e) \<Rightarrow> if expired (clock w) e then None else Some (v, e))"

text \<open>
  \<open>INCR\<close>: an absent key counts as 0 and the new key has no expiry; an existing key
  keeps its expiry. The value is a signed 64-bit integer: Redis refuses the increment
  that would overflow it.
\<close>

definition Incr :: "string \<times> string \<Rightarrow> world \<Rightarrow> (rerror + int) \<times> world" where
  "Incr k w =
     (case issue (INCR (fst k) (snd k)) w of
        (f, w1) \<Rightarrow>
          if f then (Inl transport, w1)
          else (case getLock w1 k of
                  None \<Rightarrow> (Inr 1, w1\<lparr>locks := (locks w1)(k \<mapsto> (1, None))\<rparr>)
                | Some (v, e) \<Rightarrow>
                    if v < - (2 ^ 63) \<or> 2 ^ 63 - 1 \<le> v
                    then (Inl (RedisErr ''ERR increment or decrement would overflow''), w1)
                    else (Inr (v + 1), w1\<lparr>locks := (locks w1)(k \<mapsto> (v + 1, e))\<rparr>)))"

text \<open>
  \<open>EXPIRE key ttl\<close>: sets the expiry of an existing key to \<open>ttl\<close> from now and answers
  whether the key existed; a \<open>ttl\<close> of 0 deletes the key.
\<close>

definition Expire :: "string \<times> string \<Rightarrow> nat \<Rightarrow> world \<Rightarrow> (rerror + bool) \<times> world" where
  "Expire k ttl w =
     (case issue (EXPIRE (fst k) (snd k) ttl) w of
        (f, w1) \<Rightarrow>
          if f then (Inl transport, w1)
          else (case getLock w1 k of
                  None \<Rightarrow> (Inr False, w1)
                | Some (v, e) \<Rightarrow>
                    if ttl = 0 then (Inr True, w1\<lparr>locks := (locks w1)(k := None)\<rparr>)
                    else (Inr True,
                          w1\<lparr>locks := (locks w1)(k \<mapsto> (v, Some (clock w1 + ttl)))\<rparr>)))"

text \<open>
  \<open>SET key value\<close> with an expiration, as go-redis sends it: a positive expiration
  becomes the key's time to live, any other leaves the key without expiry.
  Durations are whole milliseconds.
\<close>

definition SetEx :: "string \<times> string \<Rightarrow> int \<Rightarrow> int \<Rightarrow> world \<Rightarrow> rerror option \<times> world" where
  "SetEx k v d w =
     (case issue (SET (fst k) (snd k) v d) w of
        (f, w1) \<Rightarrow>
          if f then (Some transport, w1)
          else (None,
                w1\<lparr>locks := (locks w1)
                      (k \<mapsto> (v, if 0 < d then Some (clock w1 + nat d) else None))\<rparr>))"

text \<open>\<open>SREM\<close> on the token set of a guild.\<close>

definition SRem :: "string \<Rightarrow> string \<Rightarrow> world \<Rightarrow> rerror option \<times> world" where
  "SRem guildID member w =
     (case issue (SREM guildID member) w of
        (f, w1) \<Rightarrow>
          if f then (Some transport, w1)
          else (None,
                w1\<lparr>guildTokens := (guildTokens w1)
                      (guildID := guildTokens w1 guildID - {member})\<rparr>))"

definition SAdd :: "string \<Rightarrow> string \<Rightarrow> world \<Rightarrow> rerror option \<times> world" where
  "SAdd guildID member w =
     (case issue (SADD guildID member) w of
        (f, w1) \<Rightarrow>
          if f then (Some transport, w1)
          else (None,
                w1\<lparr>guildTokens := (guildTokens w1)
                      (guildID := insert member (guildTokens w1 guildID))\<rparr>))"

section \<open>The gateway\<close>

text \<open>
  \<open>GalactusAPI\<close>: the map from hashed tokens to sessions (an association list, read with
  \<open>map_of\<close>) and the capacity \<open>maxRequests5Seconds\<close>, an \<open>int64\<close>. The store client and
  the logger are in the world.
\<close>

record GalactusAPI =
  activeSessions :: "(string \<times> session) list"
  maxRequests5Seconds :: int

subsection \<open>Admission\<close>

text \<open>
  The value the program reads from \<open>Incr(...).Result()\<close>: the count, or 0 with an error.
\<close>

definition count_of :: "rerror + int \<Rightarrow> int" where
  "count_of r = (case r of Inl err \<Rightarrow> 0 | Inr n \<Rightarrow> n)"

definition IncrAndTestGuildTokenComboLock ::
    "GalactusAPI \<Rightarrow> string \<Rightarrow> string \<Rightarrow> world \<Rightarrow> bool \<times> world" where
  "IncrAndTestGuildTokenComboLock galactus guildID hashToken w =
     (case Incr (guildID, hashToken) w of
        (r, w1) \<Rightarrow>
          (let w2 = (case r of
                       Inl err \<Rightarrow> logmsg (LogError ''error incrementing guild token combo'') w1
                     | Inr n \<Rightarrow> w1);
               i = count_of r;
               usable = (i < maxRequests5Seconds galactus);
               w3 = logmsg (LogInfo ''guild token combo'') w2
           in if \<not> usable then (False, w3)
              else (case Expire (guildID, hashToken) 5000 w3 of
                      (Inl err, w4) \<Rightarrow>
                        (True,
                         logmsg (LogError ''error setting expiration for guild token combo'') w4)
                    | (Inr b, w4) \<Rightarrow> (True, w4))))"

definition BlacklistTokenForDuration ::
    "GalactusAPI \<Rightarrow> string \<Rightarrow> string \<Rightarrow> int \<Rightarrow> world \<Rightarrow> rerror option \<times> world" where
  "BlacklistTokenForDuration galactus guildID hashToken duration w =
     SetEx (guildID, hashToken) (maxRequests5Seconds galactus) duration w"

text \<open>
  A series of admission checks on one key: before each check the clock advances by the
  given delay.
\<close>

fun checks :: "GalactusAPI \<Rightarrow> string \<Rightarrow> string \<Rightarrow> nat list \<Rightarrow> world \<Rightarrow> bool list \<times> world" where
  "checks galactus guildID hashToken [] w = ([], w)"
| "checks galactus guildID hashToken (d # ds) w =
     (case IncrAndTestGuildTokenComboLock galactus guildID hashToken (advance d w) of
        (b, w1) \<Rightarrow>
          (case checks galactus guildID hashToken ds w1 of
             (bs, w2) \<Rightarrow> (b # bs, w2)))"

text \<open>A store with nothing in it, at time 0, and a gateway of capacity 3.\<close>

definition world0 :: world where
  "world0 = \<lparr>clock = 0, faults = [], locks = (\<lambda>k. None), guildTokens = (\<lambda>g. {}),
             jobs = [], tasks = (\<lambda>c. []), tokenLocks = {}, trace = [], logs = []\<rparr>"

definition galactus3 :: GalactusAPI where
  "galactus3 = \<lparr>activeSessions = [], maxRequests5Seconds = 3\<rparr>"

subsection \<open>Picking a secondary session\<close>

text \<open>
  The loop of \<open>getAnySession\<close> over \<open>tokens\<close>, with the index \<open>i\<close> of the element at
  hand. The result is the session (if any) and its hashed token.
\<close>

fun getAnySession_loop ::
    "GalactusAPI \<Rightarrow> string \<Rightarrow> string list \<Rightarrow> int \<Rightarrow> int \<Rightarrow> world
       \<Rightarrow> (session option \<times> string) \<times> world" where
  "getAnySession_loop galactus guildID [] i limit w = ((None, ''''), w)"
| "getAnySession_loop galactus guildID (hToken # tokens) i limit w =
     (if i = limit then ((None, ''''), w)
      else (case IncrAndTestGuildTokenComboLock galactus guildID hToken w of
              (ok, w1) \<Rightarrow>
                if ok
                then (case map_of (activeSessions galactus) hToken of
                        Some sess \<Rightarrow> ((Some sess, hToken), w1)
                      | None \<Rightarrow>
                          getAnySession_loop galactus guildID tokens (i + 1) limit
                            (snd (SRem guildID hToken w1)))
                else getAnySession_loop galactus guildID tokens (i + 1) limit
                       (logmsg
                          (LogInfo ''secondary token potentially rate-limited; skipping'')
                          w1)))"

definition getAnySession ::
    "GalactusAPI \<Rightarrow> string \<Rightarrow> string list \<Rightarrow> int \<Rightarrow> world
       \<Rightarrow> (session option \<times> string) \<times> world" where
  "getAnySession galactus guildID tokens limit w =
     getAnySession_loop galactus guildID tokens 0 limit w"

subsection \<open>The secondary rung\<close>

record UserModify =
  UserID :: nat
  Mute :: bool
  Deaf :: bool

text \<open>
  \<open>discord.ApplyMuteDeaf\<close> is the platform's REST call: a parameter that answers with the
  error, if any. A \<open>nil\<close> slice of tokens is \<open>None\<close>.
\<close>

definition attemptOnSecondaryTokens ::
    "(session \<Rightarrow> string \<Rightarrow> string \<Rightarrow> bool \<Rightarrow> bool \<Rightarrow> string option) \<Rightarrow> GalactusAPI
       \<Rightarrow> string \<Rightarrow> string \<Rightarrow> string list option \<Rightarrow> int \<Rightarrow> UserModify \<Rightarrow> world
       \<Rightarrow> bool \<times> world" where
  "attemptOnSecondaryTokens ApplyMuteDeaf galactus guildID userID tokens limit request w =
     (case tokens of
        None \<Rightarrow>
          (False,
           logmsg (LogInfo ''guild has no access to secondary bot tokens; skipping'') w)
      | Some toks \<Rightarrow>
          if 0 < limit
          then (case getAnySession galactus guildID toks limit w of
                  ((None, hToken), w1) \<Rightarrow>
                    (False, logmsg (LogInfo ''no secondary bot tokens found'') w1)
                | ((Some sess, hToken), w1) \<Rightarrow>
                    (let w2 = extern (APPLY_MUTE_DEAF sess guildID userID
                                        (Mute request) (Deaf request)) w1
                     in case ApplyMuteDeaf sess guildID userID (Mute request) (Deaf request) of
                          Some err \<Rightarrow>
                            (False,
                             logmsg (LogError ''failed to apply mute/deaf on secondary bot'')
                               w2)
                        | None \<Rightarrow>
                            (True,
                             logmsg
                               (LogInfo ''successfully applied mute/deaf on secondary bot'')
                               w2)))
          else (False,
                logmsg (LogInfo ''guild has no access to secondary bot tokens; skipping'')
                  w))"

subsection \<open>The capture rung\<close>

definition errmsg :: "rerror \<Rightarrow> string" where
  "errmsg e = (case e of RedisNil \<Rightarrow> ''redis: nil'' | RedisErr s \<Rightarrow> s)"

text \<open>\<open>time.Minute * time.Duration(5)\<close>, in milliseconds.\<close>

definition UnresponsiveCaptureBlacklistDuration :: int where
  "UnresponsiveCaptureBlacklistDuration = 300000"

text \<open>
  \<open>discord.NewModifyTask\<close> builds the task around a fresh task id; the id it draws is a
  parameter.
\<close>

definition NewModifyTask :: "string \<Rightarrow> nat \<Rightarrow> nat \<Rightarrow> bool \<Rightarrow> bool \<Rightarrow> ModifyTask" where
  "NewModifyTask taskID gid userID deaf mute =
     \<lparr>TaskID = taskID, TaskGuildID = gid, TaskUserID = userID,
      TaskDeaf = deaf, TaskMute = mute\<rparr>"

text \<open>
  \<open>client.Subscribe\<close> on the topic \<open>rediskey.CompleteTask(taskID)\<close>, represented by the
  task id. go-redis returns the subscription without an error value.
\<close>

definition Subscribe :: "string \<Rightarrow> world \<Rightarrow> world" where
  "Subscribe topic w = snd (issue (SUBSCRIBE topic) w)"

text \<open>
  Modelled from the spec: \<open>redis.PushCaptureClientTask\<close> (package internal/redis) is not
  among the sources. The spec has it encode the task and push it onto the list of the
  connect code, with a store-side timeout.
\<close>

definition PushCaptureClientTask ::
    "string \<Rightarrow> ModifyTask \<Rightarrow> nat \<Rightarrow> world \<Rightarrow> rerror option \<times> world" where
  "PushCaptureClientTask connectCode task timeout w =
     (case issue (PUSH_TASK connectCode task timeout) w of
        (f, w1) \<Rightarrow>
          if f then (Some transport, w1)
          else (None,
                w1\<lparr>tasks := (tasks w1)(connectCode := tasks w1 connectCode @ [task])\<rparr>))"

text \<open>
  \<open>waitForAck\<close> blocks in a \<open>select\<close> between the timer and the subscription's channel.
  Which case fires, and with which payload, is the environment's choice: the parameter
  \<open>sel\<close>. Both cases return, so the loop around the \<open>select\<close> runs once. The deferred
  \<open>pubsub.Close()\<close> is recorded in the trace. The result is what is sent on \<open>result\<close>.
\<close>

datatype select_case = TimerFired | Received string

definition waitForAck :: "string \<Rightarrow> nat \<Rightarrow> select_case \<Rightarrow> world \<Rightarrow> bool \<times> world" where
  "waitForAck pubsub waitTime sel w =
     (case sel of
        TimerFired \<Rightarrow> (False, extern (PUBSUB_CLOSE pubsub) w)
      | Received payload \<Rightarrow> (payload = ''true'', extern (PUBSUB_CLOSE pubsub) w))"

text \<open>
  \<open>attemptOnCaptureBot\<close> starts \<open>waitForAck\<close> as a goroutine and at once blocks on its
  result, so the call is sequential. Its own deferred \<open>pubsub.Close()\<close> runs at every
  return after the subscription.
\<close>

definition attemptOnCaptureBot ::
    "GalactusAPI \<Rightarrow> string \<Rightarrow> string \<Rightarrow> nat \<Rightarrow> nat \<Rightarrow> UserModify \<Rightarrow> string \<Rightarrow> select_case
       \<Rightarrow> world \<Rightarrow> bool \<times> world" where
  "attemptOnCaptureBot galactus guildID connectCode gid timeout request taskID sel w =
     (case IncrAndTestGuildTokenComboLock galactus guildID connectCode w of
        (ok, w1) \<Rightarrow>
          if ok
          then (let taskObj = NewModifyTask taskID gid (UserID request)
                                (Deaf request) (Mute request);
                    w2 = Subscribe (TaskID taskObj) w1
                in case PushCaptureClientTask connectCode taskObj timeout w2 of
                     (Some err, w3) \<Rightarrow>
                       (False,
                        extern (PUBSUB_CLOSE (TaskID taskObj))
                          (logmsg (LogPrintln (errmsg err))
                             (logmsg (LogPrintln ''Error in pushing task'') w3)))
                   | (None, w3) \<Rightarrow>
                       (case waitForAck (TaskID taskObj) timeout sel w3 of
                          (res, w4) \<Rightarrow>
                            if res
                            then (True,
                                  extern (PUBSUB_CLOSE (TaskID taskObj))
                                    (logmsg
                                       (LogPrintln
                                          ''Successful mute/deafen using client capture bot!'')
                                       w4))
                            else (case BlacklistTokenForDuration galactus guildID connectCode
                                         UnresponsiveCaptureBlacklistDuration w4 of
                                    (None, w5) \<Rightarrow>
                                      (False,
                                       extern (PUBSUB_CLOSE (TaskID taskObj))
                                         (logmsg
                                            (LogPrintln
                                               ''No ack from capture clients; blacklisting capture client'')
                                            w5))
                                  | (Some err, w5) \<Rightarrow>
                                      (False, extern (PUBSUB_CLOSE (TaskID taskObj)) w5))))
          else (False,
                logmsg
                  (LogPrintln
                     ''Capture client is probably rate-limited. Deferring to main bot instead'')
                  w1))"

subsection \<open>Inbound events\<close>

record VoiceStateUpdateEvent =
  vsGuildID :: string
  vsChannelID :: string
  vsUserID :: string
  vsSessionID :: string

record GuildDeleteEvent =
  gdID :: string

text \<open>
  Modelled from the spec: \<open>redis_utils.PushDiscordMessage\<close> (package internal/redis) is not
  among the sources. The spec has it push the pair of type tag and payload onto the
  shared job list.
\<close>

definition PushDiscordMessage ::
    "DiscordMessageType \<Rightarrow> string \<Rightarrow> world \<Rightarrow> rerror option \<times> world" where
  "PushDiscordMessage messageType byt w =
     (case issue (PUSH_MESSAGE messageType byt) w of
        (f, w1) \<Rightarrow>
          if f then (Some transport, w1)
          else (None, w1\<lparr>jobs := jobs w1 @ [(messageType, byt)]\<rparr>))"

text \<open>
  \<open>json.Marshal\<close> is a parameter that answers with the error or the bytes; on an error
  the Go function returns \<open>nil\<close> bytes, the empty string here. The event \<open>m\<close> is a
  pointer (\<open>None\<close> is \<open>nil\<close>); \<open>selfID\<close> is \<open>s.State.User.ID\<close>;
  \<open>AnyActiveGamesInGuild\<close> (package internal/redis, not among the sources) is a parameter.
  The purge of old games runs in the background; only its start is recorded.
\<close>

definition VoiceStateUpdateHandler ::
    "(VoiceStateUpdateEvent \<Rightarrow> string + string) \<Rightarrow> (world \<Rightarrow> string \<Rightarrow> bool) \<Rightarrow> string
       \<Rightarrow> VoiceStateUpdateEvent option \<Rightarrow> world \<Rightarrow> world" where
  "VoiceStateUpdateHandler marshal AnyActiveGamesInGuild selfID m w =
     (case m of
        None \<Rightarrow> w
      | Some ev \<Rightarrow>
          if vsUserID ev = selfID then w
          else if \<not> AnyActiveGamesInGuild w (vsGuildID ev) then w
          else (let w1 = extern (PURGE_OLD_GUILD_GAMES (vsGuildID ev)) w;
                    byt = (case marshal ev of Inl err \<Rightarrow> '''' | Inr b \<Rightarrow> b);
                    w2 = (case marshal ev of
                            Inl err \<Rightarrow>
                              logmsg
                                (LogError
                                   ''error marshalling json for VoiceStateUpdate message'')
                                w1
                          | Inr b \<Rightarrow> w1)
                in case PushDiscordMessage VoiceStateUpdate byt w2 of
                     (Some err, w3) \<Rightarrow>
                       logmsg
                         (LogError ''error pushing to Redis for VoiceStateUpdate message'') w3
                   | (None, w3) \<Rightarrow>
                       logmsg (LogInfo ''pushed discord message to Redis'') w3))"

text \<open>The event of \<open>GuildDeleteHandler\<close> is taken to be a valid pointer.\<close>

definition GuildDeleteHandler ::
    "(GuildDeleteEvent \<Rightarrow> string + string) \<Rightarrow> GuildDeleteEvent \<Rightarrow> world \<Rightarrow> world" where
  "GuildDeleteHandler marshal m w =
     (let byt = (case marshal m of Inl err \<Rightarrow> '''' | Inr b \<Rightarrow> b);
          w1 = (case marshal m of
                  Inl err \<Rightarrow>
                    logmsg (LogError ''error marshalling json for GuildDelete message'') w
                | Inr b \<Rightarrow> w)
      in case PushDiscordMessage GuildDelete byt w1 of
           (Some err, w2) \<Rightarrow>
             logmsg (LogError ''error pushing to Redis for GuildDelete message'') w2
         | (None, w2) \<Rightarrow> logmsg (LogInfo ''received GuildDelete message'') w2)"

subsection \<open>The job long-poll\<close>

text \<open>
  The response is the status given to \<open>WriteHeader\<close> and the bytes given to \<open>Write\<close>.
  \<open>redisutils.PopRawDiscordMessageTimeout\<close> (package internal/redis, not among the
  sources) is a parameter that answers with the message and the error; \<open>writeErr\<close> is the
  error of the last \<open>Write\<close>, if any.
\<close>

record response =
  status :: nat
  body :: string

definition requestJobHandler ::
    "(nat \<Rightarrow> world \<Rightarrow> (string \<times> rerror option) \<times> world) \<Rightarrow> string option \<Rightarrow> nat \<Rightarrow> world
       \<Rightarrow> response \<times> world" where
  \<open>requestJobHandler PopRawDiscordMessageTimeout writeErr timeout w =
     (case PopRawDiscordMessageTimeout timeout w of
        ((msg, err), w1) \<Rightarrow>
          (case err of
             Some RedisNil \<Rightarrow>
               (\<lparr>status = 202, body = ''{"status": "No jobs available"}''\<rparr>, w1)
           | Some (RedisErr e) \<Rightarrow>
               (\<lparr>status = 500, body = ''{"error": "'' @ e @ ''"}''\<rparr>,
                logmsg (LogError ''redis error when popping job'') w1)
           | None \<Rightarrow>
               if msg = ''''
               then (\<lparr>status = 500,
                      body = ''{"error": "Nil job returned, despite no Redis errors"}''\<rparr>,
                     logmsg (LogError ''nil job returned, despite no Redis errors'') w1)
               else (\<lparr>status = 200, body = msg\<rparr>,
                     (case writeErr of
                        Some e \<Rightarrow>
                          logmsg (LogError ''failed to write job as HTTP response'') w1
                      | None \<Rightarrow> w1))))\<close>

subsection \<open>Loading and closing the secondary sessions\<close>




definition LockForToken :: "string \<Rightarrow> world \<Rightarrow> world" where
  "LockForToken botToken w =
     (extern (LOCK_FOR_TOKEN botToken) w)\<lparr>tokenLocks := insert botToken (tokenLocks w)\<rparr>"

text \<open>The loop over \<open>sess.State.Guilds\<close>.\<close>

fun addGuilds :: "string \<Rightarrow> string list \<Rightarrow> world \<Rightarrow> world" where
  "addGuilds hashedToken [] w = w"
| "addGuilds hashedToken (v # vs) w =
     (case SAdd v hashedToken w of
        (Some (RedisErr e), w1) \<Rightarrow>
          addGuilds hashedToken vs
            (logmsg (LogError ''error adding bot token for specific guild'') w1)
      | (Some RedisNil, w1) \<Rightarrow>
          addGuilds hashedToken vs
            (logmsg (LogInfo ''added bot token to guild successfully'') w1)
      | (None, w1) \<Rightarrow>
          addGuilds hashedToken vs
            (logmsg (LogInfo ''added bot token to guild successfully'') w1))"








subsection \<open>Auxiliary definitions for the statements\<close>

text \<open>The world between the increment and the test of \<open>IncrAndTestGuildTokenComboLock\<close>.\<close>

definition after_incr :: "string \<Rightarrow> string \<Rightarrow> world \<Rightarrow> world" where
  "after_incr guildID hashToken w =
     logmsg (LogInfo ''guild token combo'')
       (case fst (Incr (guildID, hashToken) w) of
          Inl err \<Rightarrow> logmsg (LogError ''error incrementing guild token combo'')
                        (snd (Incr (guildID, hashToken) w))
        | Inr n \<Rightarrow> snd (Incr (guildID, hashToken) w))"

text \<open>Two secondaries with a session each, and a REST call that fails on the first.\<close>

definition two_sessions :: GalactusAPI where
  "two_sessions =
     \<lparr>activeSessions = [(''a'', Session ''A''), (''b'', Session ''B'')],
      maxRequests5Seconds = 3\<rparr>"

definition fails_on_A :: "session \<Rightarrow> string \<Rightarrow> string \<Rightarrow> bool \<Rightarrow> bool \<Rightarrow> string option" where
  "fails_on_A sess guildID userID mute deaf =
     (if sess = Session ''A'' then Some ''HTTP 500'' else None)"

text \<open>A pop that answers with a fixed outcome, and an event with its handler's inputs.\<close>

definition pop_const ::
    "string \<times> rerror option \<Rightarrow> nat \<Rightarrow> world \<Rightarrow> (string \<times> rerror option) \<times> world" where
  "pop_const r timeout w = (r, w)"

definition event0 :: VoiceStateUpdateEvent where
  "event0 = \<lparr>vsGuildID = ''g'', vsChannelID = ''c'', vsUserID = ''u'', vsSessionID = ''s''\<rparr>"

definition marshal_fails :: "'a \<Rightarrow> string + string" where
  "marshal_fails m = Inl ''json: unsupported value''"

definition always_active :: "world \<Rightarrow> string \<Rightarrow> bool" where
  "always_active w guildID = True"


section \<open>Properties\<close>

subsection \<open>The store commands and the admission check\<close>

lemma issue_simps [simp]:
  "trace (snd (issue c w)) = trace w @ [c]"
  "locks (snd (issue c w)) = locks w"
  "clock (snd (issue c w)) = clock w"
  "logs (snd (issue c w)) = logs w"
  "guildTokens (snd (issue c w)) = guildTokens w"
  "jobs (snd (issue c w)) = jobs w"
  "tokenLocks (snd (issue c w)) = tokenLocks w"
  "faults w = [] \<Longrightarrow> faults (snd (issue c w)) = []"
  "faults w = [] \<Longrightarrow> fst (issue c w) = False"
  by (simp_all add: issue_def split: list.splits)

lemma logmsg_simps [simp]:
  "trace (logmsg l w) = trace w"
  "locks (logmsg l w) = locks w"
  "clock (logmsg l w) = clock w"
  "faults (logmsg l w) = faults w"
  "guildTokens (logmsg l w) = guildTokens w"
  "jobs (logmsg l w) = jobs w"
  "tokenLocks (logmsg l w) = tokenLocks w"
  "logs (logmsg l w) = logs w @ [l]"
  by (simp_all add: logmsg_def)

lemma extern_simps [simp]:
  "trace (extern c w) = trace w @ [c]"
  "locks (extern c w) = locks w"
  "clock (extern c w) = clock w"
  "faults (extern c w) = faults w"
  "guildTokens (extern c w) = guildTokens w"
  "jobs (extern c w) = jobs w"
  "tokenLocks (extern c w) = tokenLocks w"
  "logs (extern c w) = logs w"
  by (simp_all add: extern_def)

lemma getLock_logmsg [simp]: "getLock (logmsg l w) k = getLock w k"
  by (simp add: getLock_def split: option.splits)

lemma Incr_trace: "trace (snd (Incr k w)) = trace w @ [INCR (fst k) (snd k)]"
  by (simp add: Incr_def split_beta split: option.splits)

lemma Incr_clock: "clock (snd (Incr k w)) = clock w"
  by (simp add: Incr_def split_beta split: option.splits)

lemma Incr_faults: "faults w = [] \<Longrightarrow> faults (snd (Incr k w)) = []"
  by (simp add: Incr_def split_beta split: option.splits)

lemma Incr_expiry:
  "getLock w k = Some (v, e) \<Longrightarrow> map_option snd (locks (snd (Incr k w)) k) = Some e"
  by (auto simp: Incr_def split_beta getLock_def split: option.splits if_splits)

lemma Incr_live: "faults w = [] \<Longrightarrow> getLock (snd (Incr k w)) k \<noteq> None"
  by (auto simp: Incr_def split_beta getLock_def expired_def split: option.splits if_splits)

lemma Expire_trace: "trace (snd (Expire k ttl w)) = trace w @ [EXPIRE (fst k) (snd k) ttl]"
  by (simp add: Expire_def split_beta split: option.splits)

lemma Expire_live:
  "faults w = [] \<Longrightarrow> getLock w k = Some (v, e) \<Longrightarrow>
     locks (snd (Expire k 5000 w)) k = Some (v, Some (clock w + 5000))"
  by (auto simp: Expire_def split_beta getLock_def split: option.splits if_splits)

lemma after_incr_simps:
  "trace (after_incr guildID hashToken w) = trace w @ [INCR guildID hashToken]"
  "clock (after_incr guildID hashToken w) = clock w"
  "locks (after_incr guildID hashToken w) = locks (snd (Incr (guildID, hashToken) w))"
  "faults w = [] \<Longrightarrow> faults (after_incr guildID hashToken w) = []"
  "getLock (after_incr guildID hashToken w) k = getLock (snd (Incr (guildID, hashToken) w)) k"
  by (cases "fst (Incr (guildID, hashToken) w)";
      simp add: after_incr_def Incr_trace Incr_clock Incr_faults)+

lemma admit_unfold:
  "IncrAndTestGuildTokenComboLock g guildID hashToken w =
     (if count_of (fst (Incr (guildID, hashToken) w)) < maxRequests5Seconds g
      then (True,
            (case fst (Expire (guildID, hashToken) 5000 (after_incr guildID hashToken w)) of
               Inl err \<Rightarrow> logmsg (LogError ''error setting expiration for guild token combo'')
                            (snd (Expire (guildID, hashToken) 5000 (after_incr guildID hashToken w)))
             | Inr b \<Rightarrow> snd (Expire (guildID, hashToken) 5000 (after_incr guildID hashToken w))))
      else (False, after_incr guildID hashToken w))"
  by (simp add: IncrAndTestGuildTokenComboLock_def after_incr_def Let_def split_beta
           split: prod.splits sum.splits)

lemma admit_trace:
  "trace (snd (IncrAndTestGuildTokenComboLock g guildID hashToken w)) =
     (if fst (IncrAndTestGuildTokenComboLock g guildID hashToken w)
      then trace w @ [INCR guildID hashToken, EXPIRE guildID hashToken 5000]
      else trace w @ [INCR guildID hashToken])"
  by (cases "fst (Expire (guildID, hashToken) 5000 (after_incr guildID hashToken w))")
     (simp_all add: admit_unfold Expire_trace after_incr_simps)

lemmas admit_defs = IncrAndTestGuildTokenComboLock_def Incr_def Expire_def issue_def
  getLock_def expired_def logmsg_def count_of_def Let_def

lemma admit_absent:
  assumes "faults w = []" and "getLock w (guildID, hashToken) = None"
  shows "fst (IncrAndTestGuildTokenComboLock g guildID hashToken w) = (1 < maxRequests5Seconds g)"
    and "locks (snd (IncrAndTestGuildTokenComboLock g guildID hashToken w)) =
           (locks w)((guildID, hashToken) \<mapsto>
              (1, if 1 < maxRequests5Seconds g then Some (clock w + 5000) else None))"
    and "clock (snd (IncrAndTestGuildTokenComboLock g guildID hashToken w)) = clock w"
    and "faults (snd (IncrAndTestGuildTokenComboLock g guildID hashToken w)) = []"
  using assms
  by (auto simp: admit_defs split: option.splits if_splits prod.splits sum.splits)

lemma admit_present:
  assumes "faults w = []" and "getLock w (guildID, hashToken) = Some (v, e)"
    and "- (2 ^ 63) \<le> v" and "v < 2 ^ 63 - 1"
  shows "fst (IncrAndTestGuildTokenComboLock g guildID hashToken w) = (v + 1 < maxRequests5Seconds g)"
    and "locks (snd (IncrAndTestGuildTokenComboLock g guildID hashToken w)) =
           (locks w)((guildID, hashToken) \<mapsto>
              (v + 1, if v + 1 < maxRequests5Seconds g then Some (clock w + 5000) else e))"
    and "clock (snd (IncrAndTestGuildTokenComboLock g guildID hashToken w)) = clock w"
    and "faults (snd (IncrAndTestGuildTokenComboLock g guildID hashToken w)) = []"
  using assms
  by (auto simp: admit_defs split: option.splits if_splits prod.splits sum.splits)

lemma advance_simps [simp]:
  "clock (advance d w) = clock w + d"
  "faults (advance d w) = faults w"
  "locks (advance d w) = locks w"
  "trace (advance d w) = trace w"
  by (simp_all add: advance_def)


lemma checks_Cons:
  "checks g guildID hashToken (d # ds) w =
     (fst (IncrAndTestGuildTokenComboLock g guildID hashToken (advance d w)) #
        fst (checks g guildID hashToken ds
               (snd (IncrAndTestGuildTokenComboLock g guildID hashToken (advance d w)))),
      snd (checks g guildID hashToken ds
             (snd (IncrAndTestGuildTokenComboLock g guildID hashToken (advance d w)))))"
  by (simp add: split_beta)

lemma getLock_advance:
  "locks w k = Some (v, Some e) \<Longrightarrow>
     getLock (advance d w) k = (if e < clock w + d then None else Some (v, Some e))"
  by (simp add: getLock_def expired_def)

subsection \<open>The window of the admission counter\<close>

text \<open>
  C1, as amended. With a capacity of 3, on a key that has no live counter and with the
  store's commands going through, five admission checks such that the second comes at
  most 5 s after the first, the third and the fourth at most 5 s after the second, and the
  fifth more than 5 s after the second, return true, true, false, false, true: the third
  check already reads the count 3 and is refused. In general a check is refused exactly
  when the count it reads (the value after the increment, 0 on an error) is at least the
  capacity.
\<close>

theorem admission_window:
  assumes "maxRequests5Seconds g = 3" and "faults w = []"
    and "getLock (advance d1 w) (guildID, hashToken) = None"
    and "d2 \<le> 5000" and "d3 + d4 \<le> 5000" and "5000 < d3 + d4 + d5"
  shows "fst (checks g guildID hashToken [d1, d2, d3, d4, d5] w) =
           [True, True, False, False, True] \<and>
         (\<forall>w'. (\<not> fst (IncrAndTestGuildTokenComboLock g guildID hashToken w')) =
                 (maxRequests5Seconds g \<le> count_of (fst (Incr (guildID, hashToken) w'))))"
proof -
  let ?k = "(guildID, hashToken)"
  let ?c1 = "clock w + d1"
  let ?c2 = "clock w + d1 + d2"
  define w1 where "w1 = snd (IncrAndTestGuildTokenComboLock g guildID hashToken (advance d1 w))"
  define w2 where "w2 = snd (IncrAndTestGuildTokenComboLock g guildID hashToken (advance d2 w1))"
  define w3 where "w3 = snd (IncrAndTestGuildTokenComboLock g guildID hashToken (advance d3 w2))"
  define w4 where "w4 = snd (IncrAndTestGuildTokenComboLock g guildID hashToken (advance d4 w3))"
  have f0: "faults (advance d1 w) = []" using assms(2) by simp
  note s1 = admit_absent [OF f0 assms(3), of g]
  have b1: "fst (IncrAndTestGuildTokenComboLock g guildID hashToken (advance d1 w))"
    using s1(1) assms(1) by simp
  have l1: "locks w1 ?k = Some (1, Some (?c1 + 5000))"
    and c1: "clock w1 = ?c1" and f1: "faults (advance d2 w1) = []"
    using s1 assms(1) by (simp_all add: w1_def)
  have g2: "getLock (advance d2 w1) ?k = Some (1, Some (?c1 + 5000))"
    using getLock_advance [OF l1, of d2] c1 assms(4) by simp
  note s2 = admit_present [OF f1 g2, of g]
  have b2: "fst (IncrAndTestGuildTokenComboLock g guildID hashToken (advance d2 w1))"
    using s2(1) assms(1) by simp
  have l2: "locks w2 ?k = Some (2, Some (?c2 + 5000))"
    and c2: "clock w2 = ?c2" and f2: "faults (advance d3 w2) = []"
    using s2 assms(1) c1 by (simp_all add: w2_def)
  have g3: "getLock (advance d3 w2) ?k = Some (2, Some (?c2 + 5000))"
    using getLock_advance [OF l2, of d3] c2 assms(5) by simp
  note s3 = admit_present [OF f2 g3, of g]
  have b3: "\<not> fst (IncrAndTestGuildTokenComboLock g guildID hashToken (advance d3 w2))"
    using s3(1) assms(1) by simp
  have l3: "locks w3 ?k = Some (3, Some (?c2 + 5000))"
    and c3: "clock w3 = ?c2 + d3" and f3: "faults (advance d4 w3) = []"
    using s3 assms(1) c2 by (simp_all add: w3_def)
  have g4: "getLock (advance d4 w3) ?k = Some (3, Some (?c2 + 5000))"
    using getLock_advance [OF l3, of d4] c3 assms(5) by simp
  note s4 = admit_present [OF f3 g4, of g]
  have b4: "\<not> fst (IncrAndTestGuildTokenComboLock g guildID hashToken (advance d4 w3))"
    using s4(1) assms(1) by simp
  have l4: "locks w4 ?k = Some (4, Some (?c2 + 5000))"
    and c4: "clock w4 = ?c2 + d3 + d4" and f4: "faults (advance d5 w4) = []"
    using s4 assms(1) c3 by (simp_all add: w4_def)
  have g5: "getLock (advance d5 w4) ?k = None"
    using getLock_advance [OF l4, of d5] c4 assms(6) by simp
  note s5 = admit_absent [OF f4 g5, of g]
  have b5: "fst (IncrAndTestGuildTokenComboLock g guildID hashToken (advance d5 w4))"
    using s5(1) assms(1) by simp
  have run: "fst (checks g guildID hashToken [d1, d2, d3, d4, d5] w) =
               [True, True, False, False, True]"
    unfolding checks_Cons fst_conv snd_conv
    unfolding w1_def [symmetric]
    unfolding w2_def [symmetric]
    unfolding w3_def [symmetric]
    unfolding w4_def [symmetric]
    using b1 b2 b3 b4 b5
    by (simp add: w1_def [symmetric] w2_def [symmetric] w3_def [symmetric] w4_def [symmetric])
  have rule: "\<forall>w'. (\<not> fst (IncrAndTestGuildTokenComboLock g guildID hashToken w')) =
                 (maxRequests5Seconds g \<le> count_of (fst (Incr (guildID, hashToken) w')))"
    by (simp add: admit_unfold not_less)
  show ?thesis using run rule by simp
qed

theorem admission_window_witness:
  "maxRequests5Seconds galactus3 = 3 \<and> faults world0 = [] \<and>
   getLock (advance 0 world0) (''g'', ''i'') = None \<and>
   (1000::nat) \<le> 5000 \<and> (1000::nat) + 1000 \<le> 5000 \<and> (5000::nat) < 1000 + 1000 + 5000 \<and>
   fst (checks galactus3 ''g'' ''i'' [0, 1000, 1000, 1000, 5000] world0) =
     [True, True, False, False, True]"
proof -
  have h1: "maxRequests5Seconds galactus3 = 3" by (simp add: galactus3_def)
  have h2: "faults world0 = []" by (simp add: world0_def)
  have h3: "getLock (advance 0 world0) (''g'', ''i'') = None"
    by (simp add: getLock_def world0_def advance_def)
  have h4: "(1000::nat) \<le> 5000" by simp
  have h5: "(1000::nat) + 1000 \<le> 5000" by simp
  have h6: "(5000::nat) < 1000 + 1000 + 5000" by simp
  show ?thesis
    using admission_window [OF h1 h2 h3 h4 h5 h6] h1 h2 h3 by simp
qed

text \<open>
  With a capacity of 3, four checks in a row on a fresh key return true, true, false,
  false, not true, true, true, false.
\<close>

theorem admission_window_counterexample:
  "fst (checks galactus3 ''g'' ''i'' [0, 0, 0, 0] world0) = [True, True, False, False] \<and>
   fst (checks galactus3 ''g'' ''i'' [0, 0, 0, 0] world0) \<noteq> [True, True, True, False]"
  by (simp add: admit_defs world0_def galactus3_def advance_def)

subsection \<open>Blacklisting\<close>




subsection \<open>The expiry of the counter\<close>

text \<open>
  C3, as amended. Every granted admission check sets the expiry of the counter to 5 s
  after that check, whether or not the counter already had an expiry (the store's
  commands going through): a later grant in the same window moves the expiry. A refused
  check sends no \<open>EXPIRE\<close> and leaves the expiry of a live counter as it was.
\<close>

theorem grant_sets_ttl:
  "(faults w = [] \<and> fst (IncrAndTestGuildTokenComboLock g guildID hashToken w) \<longrightarrow>
      map_option snd (locks (snd (IncrAndTestGuildTokenComboLock g guildID hashToken w))
                        (guildID, hashToken)) = Some (Some (clock w + 5000))) \<and>
   (\<not> fst (IncrAndTestGuildTokenComboLock g guildID hashToken w) \<longrightarrow>
      trace (snd (IncrAndTestGuildTokenComboLock g guildID hashToken w)) =
        trace w @ [INCR guildID hashToken] \<and>
      (\<forall>v e. getLock w (guildID, hashToken) = Some (v, e) \<longrightarrow>
         map_option snd (locks (snd (IncrAndTestGuildTokenComboLock g guildID hashToken w))
                           (guildID, hashToken)) = Some e))"
proof (intro conjI impI allI)
  assume a: "faults w = [] \<and> fst (IncrAndTestGuildTokenComboLock g guildID hashToken w)"
  let ?k = "(guildID, hashToken)"
  let ?w3 = "after_incr guildID hashToken w"
  have f3: "faults ?w3 = []" using a by (simp add: after_incr_simps)
  obtain v e where live: "getLock ?w3 ?k = Some (v, e)"
    using Incr_live [of w ?k] a
    by (cases "getLock (snd (Incr ?k w)) ?k") (auto simp: after_incr_simps)
  have "locks (snd (Expire ?k 5000 ?w3)) ?k = Some (v, Some (clock w + 5000))"
    using Expire_live [OF f3 live] by (simp add: after_incr_simps)
  then show "map_option snd
               (locks (snd (IncrAndTestGuildTokenComboLock g guildID hashToken w)) ?k) =
             Some (Some (clock w + 5000))"
    using a by (cases "fst (Expire ?k 5000 ?w3)") (simp_all add: admit_unfold split: if_splits)
next
  assume "\<not> fst (IncrAndTestGuildTokenComboLock g guildID hashToken w)"
  then show "trace (snd (IncrAndTestGuildTokenComboLock g guildID hashToken w)) =
        trace w @ [INCR guildID hashToken]"
    by (simp add: admit_trace)
next
  fix v e
  assume d: "\<not> fst (IncrAndTestGuildTokenComboLock g guildID hashToken w)"
    and l: "getLock w (guildID, hashToken) = Some (v, e)"
  have "locks (snd (IncrAndTestGuildTokenComboLock g guildID hashToken w)) =
          locks (snd (Incr (guildID, hashToken) w))"
    using d by (simp add: admit_unfold after_incr_simps split: if_splits)
  then show "map_option snd (locks (snd (IncrAndTestGuildTokenComboLock g guildID hashToken w))
                           (guildID, hashToken)) = Some e"
    using Incr_expiry [OF l] by simp
qed

theorem grant_sets_ttl_witness:
  "faults (advance 2000 (snd (checks galactus3 ''g'' ''i'' [0] world0))) = [] \<and>
   fst (IncrAndTestGuildTokenComboLock galactus3 ''g'' ''i''
          (advance 2000 (snd (checks galactus3 ''g'' ''i'' [0] world0)))) \<and>
   map_option snd
     (locks (snd (IncrAndTestGuildTokenComboLock galactus3 ''g'' ''i''
                    (advance 2000 (snd (checks galactus3 ''g'' ''i'' [0] world0)))))
        (''g'', ''i'')) = Some (Some 7000) \<and>
   \<not> fst (IncrAndTestGuildTokenComboLock galactus3 ''g'' ''i''
            (snd (checks galactus3 ''g'' ''i'' [0, 2000] world0))) \<and>
   getLock (snd (checks galactus3 ''g'' ''i'' [0, 2000] world0)) (''g'', ''i'') =
     Some (2, Some 7000) \<and>
   map_option snd
     (locks (snd (IncrAndTestGuildTokenComboLock galactus3 ''g'' ''i''
                    (snd (checks galactus3 ''g'' ''i'' [0, 2000] world0))))
        (''g'', ''i'')) = Some (Some 7000)"
proof -
  let ?wa = "advance 2000 (snd (checks galactus3 ''g'' ''i'' [0] world0))"
  let ?wb = "snd (checks galactus3 ''g'' ''i'' [0, 2000] world0)"
  have a1: "faults ?wa = []"
    by (simp add: admit_defs world0_def galactus3_def advance_def)
  have a2: "fst (IncrAndTestGuildTokenComboLock galactus3 ''g'' ''i'' ?wa)"
    by (simp add: admit_defs world0_def galactus3_def advance_def)
  have a3: "clock ?wa = 2000"
    by (simp add: admit_defs world0_def galactus3_def advance_def)
  have b1: "\<not> fst (IncrAndTestGuildTokenComboLock galactus3 ''g'' ''i'' ?wb)"
    by (simp add: admit_defs world0_def galactus3_def advance_def)
  have b2: "getLock ?wb (''g'', ''i'') = Some (2, Some 7000)"
    by (simp add: admit_defs world0_def galactus3_def advance_def)
  show ?thesis
    using grant_sets_ttl [of ?wa galactus3 "''g''" "''i''"]
          grant_sets_ttl [of ?wb galactus3 "''g''" "''i''"] a1 a2 a3 b1 b2
    by simp
qed

text \<open>
  Two grants in one window, 2 s apart: the first sets the expiry to 5000, the second
  moves it to 7000.
\<close>

theorem grant_sets_ttl_counterexample:
  "fst (checks galactus3 ''g'' ''i'' [0, 2000] world0) = [True, True] \<and>
   locks (snd (checks galactus3 ''g'' ''i'' [0] world0)) (''g'', ''i'') =
     Some (1, Some 5000) \<and>
   locks (snd (checks galactus3 ''g'' ''i'' [0, 2000] world0)) (''g'', ''i'') =
     Some (2, Some 7000)"
  by (simp add: admit_defs world0_def galactus3_def advance_def)

subsection \<open>Store errors\<close>

text \<open>
  C10. If the increment of the admission counter returns an error, the check reads the
  count as 0; with a positive capacity 0 is below it, so the check grants admission, and
  it still sends the command that sets the expiry: the trace of the call is the \<open>INCR\<close>
  followed by the \<open>EXPIRE\<close> of 5 seconds.
\<close>

theorem admission_fails_open:
  assumes "fst (Incr (guildID, hashToken) w) = Inl err"
    and "0 < maxRequests5Seconds g"
  shows "count_of (fst (Incr (guildID, hashToken) w)) = 0 \<and>
         fst (IncrAndTestGuildTokenComboLock g guildID hashToken w) \<and>
         trace (snd (IncrAndTestGuildTokenComboLock g guildID hashToken w)) =
           trace w @ [INCR guildID hashToken, EXPIRE guildID hashToken 5000]"
proof -
  have c: "count_of (fst (Incr (guildID, hashToken) w)) = 0"
    using assms(1) by (simp add: count_of_def)
  have g: "fst (IncrAndTestGuildTokenComboLock g guildID hashToken w)"
    using c assms(2) by (simp add: admit_unfold)
  show ?thesis using c g by (simp add: admit_trace)
qed

theorem admission_fails_open_witness:
  "fst (Incr (''g'', ''i'') (world0\<lparr>faults := [True]\<rparr>)) = Inl transport \<and>
   0 < maxRequests5Seconds galactus3 \<and>
   fst (IncrAndTestGuildTokenComboLock galactus3 ''g'' ''i'' (world0\<lparr>faults := [True]\<rparr>)) \<and>
   trace (snd (IncrAndTestGuildTokenComboLock galactus3 ''g'' ''i''
                 (world0\<lparr>faults := [True]\<rparr>))) =
     [INCR ''g'' ''i'', EXPIRE ''g'' ''i'' 5000]"
proof -
  have h1: "fst (Incr (''g'', ''i'') (world0\<lparr>faults := [True]\<rparr>)) = Inl transport"
    by (simp add: Incr_def issue_def world0_def)
  have h2: "0 < maxRequests5Seconds galactus3"
    by (simp add: galactus3_def)
  show ?thesis
    using admission_fails_open [OF h1 h2] h1 h2 by (simp add: world0_def)
qed

lemma Incr_frame [simp]:
  "guildTokens (snd (Incr k w)) = guildTokens w"
  "jobs (snd (Incr k w)) = jobs w"
  "tokenLocks (snd (Incr k w)) = tokenLocks w"
  by (simp_all add: Incr_def split_beta split: option.splits)

lemma Expire_frame [simp]:
  "guildTokens (snd (Expire k ttl w)) = guildTokens w"
  "jobs (snd (Expire k ttl w)) = jobs w"
  "tokenLocks (snd (Expire k ttl w)) = tokenLocks w"
  "clock (snd (Expire k ttl w)) = clock w"
  by (simp_all add: Expire_def split_beta split: option.splits)

lemma after_incr_frame [simp]:
  "guildTokens (after_incr guildID hashToken w) = guildTokens w"
  "jobs (after_incr guildID hashToken w) = jobs w"
  "tokenLocks (after_incr guildID hashToken w) = tokenLocks w"
  by (cases "fst (Incr (guildID, hashToken) w)"; simp add: after_incr_def)+

lemma admit_frame [simp]:
  "guildTokens (snd (IncrAndTestGuildTokenComboLock g guildID hashToken w)) = guildTokens w"
  "jobs (snd (IncrAndTestGuildTokenComboLock g guildID hashToken w)) = jobs w"
  "tokenLocks (snd (IncrAndTestGuildTokenComboLock g guildID hashToken w)) = tokenLocks w"
  by (cases "fst (Expire (guildID, hashToken) 5000 (after_incr guildID hashToken w))";
      simp add: admit_unfold)+

lemma SRem_simps:
  "trace (snd (SRem guildID member w)) = trace w @ [SREM guildID member]"
  "locks (snd (SRem guildID member w)) = locks w"
  "clock (snd (SRem guildID member w)) = clock w"
  "faults w = [] \<Longrightarrow> faults (snd (SRem guildID member w)) = []"
  "faults w = [] \<Longrightarrow>
     guildTokens (snd (SRem guildID member w)) guildID = guildTokens w guildID - {member}"
  by (simp_all add: SRem_def split_beta)

lemma getLock_same:
  "locks w' k = locks w k \<Longrightarrow> clock w' = clock w \<Longrightarrow> getLock w' k = getLock w k"
  by (auto simp: getLock_def split: option.splits)

subsection \<open>Stale identities\<close>

text \<open>
  C6. When the session lookup admits a hashed identity that has no session in the local
  map, it sends the \<open>SREM\<close> that removes the identity from the guild's token set (and the
  store removes it, the command going through) and goes on with the next listed identity.
  In particular, with two identities listed of which only the second has a session, both
  being admitted (no live counter, a capacity above 1, a limit that does not stop the walk
  before the second), the walk returns the session of the second, and the guild's token
  set, which held the two, holds only the second afterwards.
\<close>

theorem stale_identity_removed:
  assumes "a \<noteq> b"
    and "map_of (activeSessions g) a = None"
    and "map_of (activeSessions g) b = Some s"
    and "faults w = []"
    and "getLock w (guildID, a) = None" and "getLock w (guildID, b) = None"
    and "1 < maxRequests5Seconds g"
    and "limit \<noteq> 0" and "limit \<noteq> 1"
    and "guildTokens w guildID = {a, b}"
  shows "(\<forall>i h rest w0 w1.
            i \<noteq> limit \<and> IncrAndTestGuildTokenComboLock g guildID h w0 = (True, w1) \<and>
            map_of (activeSessions g) h = None \<and> faults w1 = [] \<longrightarrow>
            getAnySession_loop g guildID (h # rest) i limit w0 =
              getAnySession_loop g guildID rest (i + 1) limit (snd (SRem guildID h w1)) \<and>
            trace (snd (SRem guildID h w1)) = trace w1 @ [SREM guildID h] \<and>
            guildTokens (snd (SRem guildID h w1)) guildID = guildTokens w1 guildID - {h}) \<and>
         fst (getAnySession g guildID [a, b] limit w) = (Some s, b) \<and>
         guildTokens (snd (getAnySession g guildID [a, b] limit w)) guildID = {b}"
proof -
  have step: "\<forall>i h rest w0 w1.
            i \<noteq> limit \<and> IncrAndTestGuildTokenComboLock g guildID h w0 = (True, w1) \<and>
            map_of (activeSessions g) h = None \<and> faults w1 = [] \<longrightarrow>
            getAnySession_loop g guildID (h # rest) i limit w0 =
              getAnySession_loop g guildID rest (i + 1) limit (snd (SRem guildID h w1)) \<and>
            trace (snd (SRem guildID h w1)) = trace w1 @ [SREM guildID h] \<and>
            guildTokens (snd (SRem guildID h w1)) guildID = guildTokens w1 guildID - {h}"
    by (simp add: SRem_simps)
  define w1 where "w1 = snd (IncrAndTestGuildTokenComboLock g guildID a w)"
  define w2 where "w2 = snd (SRem guildID a w1)"
  define w3 where "w3 = snd (IncrAndTestGuildTokenComboLock g guildID b w2)"
  note s1 = admit_absent [OF assms(4) assms(5), of g]
  have r1: "IncrAndTestGuildTokenComboLock g guildID a w = (True, w1)"
    using s1(1) assms(7) by (simp add: w1_def prod_eq_iff)
  have f1: "faults w1 = []" using s1(4) by (simp add: w1_def)
  have f2: "faults w2 = []" using f1 by (simp add: w2_def SRem_simps)
  have gt2: "guildTokens w2 guildID = {b}"
    using f1 assms(1,10) by (auto simp: w2_def w1_def SRem_simps)
  have "locks w2 (guildID, b) = locks w (guildID, b)"
    using s1(2) assms(1) by (simp add: w2_def w1_def SRem_simps)
  moreover have "clock w2 = clock w"
    using s1(3) by (simp add: w2_def w1_def SRem_simps)
  ultimately have l2: "getLock w2 (guildID, b) = None"
    using assms(6) getLock_same [of w2 "(guildID, b)" w] by simp
  note s2 = admit_absent [OF f2 l2, of g]
  have r2: "IncrAndTestGuildTokenComboLock g guildID b w2 = (True, w3)"
    using s2(1) assms(7) by (simp add: w3_def prod_eq_iff)
  have gt3: "guildTokens w3 guildID = {b}" using gt2 by (simp add: w3_def)
  have run: "getAnySession g guildID [a, b] limit w = ((Some s, b), w3)"
    using assms(2,3,8,9) r1 r2 by (simp add: getAnySession_def w2_def)
  show ?thesis using step run gt3 by simp
qed

theorem stale_identity_removed_witness:
  "IncrAndTestGuildTokenComboLock
     \<lparr>activeSessions = [(''b'', Session ''B'')], maxRequests5Seconds = 3\<rparr> ''g'' ''a''
     (world0\<lparr>guildTokens := (\<lambda>x. {''a'', ''b''})\<rparr>) =
     (True,
      snd (IncrAndTestGuildTokenComboLock
             \<lparr>activeSessions = [(''b'', Session ''B'')], maxRequests5Seconds = 3\<rparr> ''g'' ''a''
             (world0\<lparr>guildTokens := (\<lambda>x. {''a'', ''b''})\<rparr>))) \<and>
   guildTokens
     (snd (SRem ''g'' ''a''
        (snd (IncrAndTestGuildTokenComboLock
                \<lparr>activeSessions = [(''b'', Session ''B'')], maxRequests5Seconds = 3\<rparr> ''g'' ''a''
                (world0\<lparr>guildTokens := (\<lambda>x. {''a'', ''b''})\<rparr>)))))
     ''g'' = {''b''} \<and>
   fst (getAnySession \<lparr>activeSessions = [(''b'', Session ''B'')], maxRequests5Seconds = 3\<rparr>
          ''g'' [''a'', ''b''] 2 (world0\<lparr>guildTokens := (\<lambda>x. {''a'', ''b''})\<rparr>)) =
     (Some (Session ''B''), ''b'') \<and>
   guildTokens
     (snd (getAnySession \<lparr>activeSessions = [(''b'', Session ''B'')], maxRequests5Seconds = 3\<rparr>
             ''g'' [''a'', ''b''] 2 (world0\<lparr>guildTokens := (\<lambda>x. {''a'', ''b''})\<rparr>)))
     ''g'' = {''b''}"
proof -
  let ?g = "\<lparr>activeSessions = [(''b'', Session ''B'')], maxRequests5Seconds = 3\<rparr>"
  let ?w = "world0\<lparr>guildTokens := (\<lambda>x. {''a'', ''b''})\<rparr>"
  let ?w1 = "snd (IncrAndTestGuildTokenComboLock ?g ''g'' ''a'' ?w)"
  have h1: "''a'' \<noteq> ''b''" by simp
  have h2: "map_of (activeSessions ?g) ''a'' = None" by simp
  have h3: "map_of (activeSessions ?g) ''b'' = Some (Session ''B'')" by simp
  have h4: "faults ?w = []" by (simp add: world0_def)
  have h5: "getLock ?w (''g'', ''a'') = None" by (simp add: getLock_def world0_def)
  have h6: "getLock ?w (''g'', ''b'') = None" by (simp add: getLock_def world0_def)
  have h7: "1 < maxRequests5Seconds ?g" by simp
  have h8: "(2::int) \<noteq> 0" by simp
  have h9: "(2::int) \<noteq> 1" by simp
  have h10: "guildTokens ?w ''g'' = {''a'', ''b''}" by simp
  note th = stale_identity_removed [OF h1 h2 h3 h4 h5 h6 h7 h8 h9 h10]
  have adm: "IncrAndTestGuildTokenComboLock ?g ''g'' ''a'' ?w = (True, ?w1)"
    using admit_absent(1) [OF h4 h5, of ?g] by (simp add: prod_eq_iff)
  have f1: "faults ?w1 = []" using admit_absent(4) [OF h4 h5, of ?g] .
  have g1: "guildTokens ?w1 ''g'' = {''a'', ''b''}" by simp
  note step = th [THEN conjunct1, THEN spec [where x = "0::int"],
                  THEN spec [where x = "''a''"], THEN spec [where x = "[''b'']"],
                  THEN spec [where x = ?w], THEN spec [where x = ?w1], THEN mp]
  have pre: "(0::int) \<noteq> 2 \<and> IncrAndTestGuildTokenComboLock ?g ''g'' ''a'' ?w = (True, ?w1) \<and>
             map_of (activeSessions ?g) ''a'' = None \<and> faults ?w1 = []"
    using adm f1 by simp
  have rem: "guildTokens (snd (SRem ''g'' ''a'' ?w1)) ''g'' = {''b''}"
    using step [OF pre, THEN conjunct2, THEN conjunct2] g1 by simp
  have fin: "fst (getAnySession ?g ''g'' [''a'', ''b''] 2 ?w) = (Some (Session ''B''), ''b'') \<and>
             guildTokens (snd (getAnySession ?g ''g'' [''a'', ''b''] 2 ?w)) ''g'' = {''b''}"
    using th [THEN conjunct2] .
  show ?thesis using adm rem fin by simp
qed

subsection \<open>A REST failure on a secondary session\<close>

text \<open>
  C4, as amended. When the mute/deaf REST call on the secondary session that the lookup
  returned fails, the dispatcher logs the failure and returns false: the world it leaves
  is the one after the single lookup, with the one REST call and the one log entry added.
  It makes no further admission check and tries no other secondary identity.
\<close>

theorem secondary_rest_failure:
  assumes "0 < limit"
    and "getAnySession g guildID toks limit w = ((Some sess, hToken), w1)"
    and "ApplyMuteDeaf sess guildID userID (Mute request) (Deaf request) = Some err"
  shows "attemptOnSecondaryTokens ApplyMuteDeaf g guildID userID (Some toks) limit request w =
           (False,
            logmsg (LogError ''failed to apply mute/deaf on secondary bot'')
              (extern (APPLY_MUTE_DEAF sess guildID userID (Mute request) (Deaf request)) w1))"
  using assms by (simp add: attemptOnSecondaryTokens_def)

theorem secondary_rest_failure_witness:
  "(0::int) < 2 \<and>
   fst (getAnySession two_sessions ''g'' [''a'', ''b''] 2 world0) =
     (Some (Session ''A''), ''a'') \<and>
   fails_on_A (Session ''A'') ''g'' ''u'' True False = Some ''HTTP 500'' \<and>
   attemptOnSecondaryTokens fails_on_A two_sessions ''g'' ''u'' (Some [''a'', ''b'']) 2
       \<lparr>UserID = 7, Mute = True, Deaf = False\<rparr> world0 =
     (False,
      logmsg (LogError ''failed to apply mute/deaf on secondary bot'')
        (extern (APPLY_MUTE_DEAF (Session ''A'') ''g'' ''u'' True False)
           (snd (getAnySession two_sessions ''g'' [''a'', ''b''] 2 world0))))"
proof -
  let ?r = "getAnySession two_sessions ''g'' [''a'', ''b''] 2 world0"
  have h1: "(0::int) < 2" by simp
  have f: "fst ?r = (Some (Session ''A''), ''a'')"
    by (simp add: getAnySession_def admit_unfold two_sessions_def count_of_def
          Incr_def issue_def getLock_def world0_def)
  have h2: "?r = ((Some (Session ''A''), ''a''), snd ?r)"
    using f by (simp add: prod_eq_iff)
  have h3: "fails_on_A (Session ''A'') ''g'' ''u''
              (Mute \<lparr>UserID = 7, Mute = True, Deaf = False\<rparr>)
              (Deaf \<lparr>UserID = 7, Mute = True, Deaf = False\<rparr>) = Some ''HTTP 500''"
    by (simp add: fails_on_A_def)
  show ?thesis
    using secondary_rest_failure
            [where ApplyMuteDeaf = fails_on_A and userID = "''u''"
               and request = "\<lparr>UserID = 7, Mute = True, Deaf = False\<rparr>",
             OF h1 h2 h3] f h3
    by simp
qed

text \<open>
  Two secondaries with a session each, the REST call failing on the first and not on the
  second: the dispatcher returns false after the one call on the first; the second is
  neither admitted nor called.
\<close>

theorem secondary_rest_failure_counterexample:
  "fst (attemptOnSecondaryTokens fails_on_A two_sessions ''g'' ''u'' (Some [''a'', ''b'']) 2
          \<lparr>UserID = 7, Mute = True, Deaf = False\<rparr> world0) = False \<and>
   trace (snd (attemptOnSecondaryTokens fails_on_A two_sessions ''g'' ''u''
                 (Some [''a'', ''b'']) 2 \<lparr>UserID = 7, Mute = True, Deaf = False\<rparr> world0)) =
     [INCR ''g'' ''a'', EXPIRE ''g'' ''a'' 5000,
      APPLY_MUTE_DEAF (Session ''A'') ''g'' ''u'' True False]"
  by (simp add: attemptOnSecondaryTokens_def getAnySession_def admit_defs two_sessions_def
        fails_on_A_def world0_def extern_def)

subsection \<open>The capture rung\<close>

lemma capture_trace:
  assumes "IncrAndTestGuildTokenComboLock g guildID connectCode w = (True, w1)"
  shows "\<exists>rest. trace (snd (attemptOnCaptureBot g guildID connectCode gid timeout request
                               taskID sel w)) =
           trace w1 @
           [SUBSCRIBE taskID,
            PUSH_TASK connectCode
              (NewModifyTask taskID gid (UserID request) (Deaf request) (Mute request))
              timeout] @ rest"
  using assms
  by (cases sel)
     (auto simp: attemptOnCaptureBot_def Let_def Subscribe_def PushCaptureClientTask_def
        waitForAck_def BlacklistTokenForDuration_def SetEx_def NewModifyTask_def split_beta)

lemma capture_result:
  assumes "IncrAndTestGuildTokenComboLock g guildID connectCode w = (True, w1)"
  shows "fst (attemptOnCaptureBot g guildID connectCode gid timeout request taskID sel w) =
           (fst (PushCaptureClientTask connectCode
                   (NewModifyTask taskID gid (UserID request) (Deaf request) (Mute request))
                   timeout (Subscribe taskID w1)) = None \<and>
            sel = Received ''true'')"
  using assms
  by (cases sel)
     (auto simp: attemptOnCaptureBot_def Let_def waitForAck_def NewModifyTask_def split_beta
           split: option.splits prod.splits)

text \<open>
  C5. In the capture rung, once the admission check has passed, the first two commands
  the dispatcher sends are the subscription to the task's completion topic and then the
  push of the task onto the list of the connect code, in this order. The ack wait answers
  true exactly when the \<open>select\<close> receives a message whose payload is \<open>true\<close>, and false
  when the timer fires or the payload is anything else; the rung succeeds exactly when
  the push went through and the wait answered true.
\<close>

theorem capture_subscribes_before_push:
  assumes "IncrAndTestGuildTokenComboLock g guildID connectCode w = (True, w1)"
  shows "take 2 (drop (length (trace w1))
           (trace (snd (attemptOnCaptureBot g guildID connectCode gid timeout request
                          taskID sel w)))) =
           [SUBSCRIBE taskID,
            PUSH_TASK connectCode
              (NewModifyTask taskID gid (UserID request) (Deaf request) (Mute request))
              timeout] \<and>
         fst (waitForAck taskID timeout sel w') = (sel = Received ''true'') \<and>
         fst (attemptOnCaptureBot g guildID connectCode gid timeout request taskID sel w) =
           (fst (PushCaptureClientTask connectCode
                   (NewModifyTask taskID gid (UserID request) (Deaf request) (Mute request))
                   timeout (Subscribe taskID w1)) = None \<and>
            sel = Received ''true'')"
proof -
  obtain rest where
    "trace (snd (attemptOnCaptureBot g guildID connectCode gid timeout request taskID sel w)) =
       trace w1 @
       [SUBSCRIBE taskID,
        PUSH_TASK connectCode
          (NewModifyTask taskID gid (UserID request) (Deaf request) (Mute request))
          timeout] @ rest"
    using capture_trace [OF assms] by blast
  then have order: "take 2 (drop (length (trace w1))
           (trace (snd (attemptOnCaptureBot g guildID connectCode gid timeout request
                          taskID sel w)))) =
           [SUBSCRIBE taskID,
            PUSH_TASK connectCode
              (NewModifyTask taskID gid (UserID request) (Deaf request) (Mute request))
              timeout]"
    by simp
  have ack: "fst (waitForAck taskID timeout sel w') = (sel = Received ''true'')"
    by (cases sel) (simp_all add: waitForAck_def)
  show ?thesis using order ack capture_result [OF assms] by simp
qed

theorem capture_subscribes_before_push_witness:
  "IncrAndTestGuildTokenComboLock galactus3 ''g'' ''X'' world0 =
     (True, snd (IncrAndTestGuildTokenComboLock galactus3 ''g'' ''X'' world0)) \<and>
   trace (snd (attemptOnCaptureBot galactus3 ''g'' ''X'' 1 2000
                 \<lparr>UserID = 7, Mute = True, Deaf = False\<rparr> ''t1'' (Received ''true'') world0)) =
     [INCR ''g'' ''X'', EXPIRE ''g'' ''X'' 5000, SUBSCRIBE ''t1'',
      PUSH_TASK ''X'' (NewModifyTask ''t1'' 1 7 False True) 2000,
      PUBSUB_CLOSE ''t1'', PUBSUB_CLOSE ''t1''] \<and>
   fst (attemptOnCaptureBot galactus3 ''g'' ''X'' 1 2000
          \<lparr>UserID = 7, Mute = True, Deaf = False\<rparr> ''t1'' (Received ''true'') world0) \<and>
   \<not> fst (attemptOnCaptureBot galactus3 ''g'' ''X'' 1 2000
            \<lparr>UserID = 7, Mute = True, Deaf = False\<rparr> ''t1'' TimerFired world0) \<and>
   \<not> fst (attemptOnCaptureBot galactus3 ''g'' ''X'' 1 2000
            \<lparr>UserID = 7, Mute = True, Deaf = False\<rparr> ''t1'' (Received ''false'') world0)"
proof -
  let ?w1 = "snd (IncrAndTestGuildTokenComboLock galactus3 ''g'' ''X'' world0)"
  let ?rq = "\<lparr>UserID = 7, Mute = True, Deaf = False\<rparr>"
  have h: "IncrAndTestGuildTokenComboLock galactus3 ''g'' ''X'' world0 = (True, ?w1)"
    by (simp add: admit_unfold count_of_def Incr_def issue_def getLock_def world0_def
          galactus3_def prod_eq_iff)
  have push: "fst (PushCaptureClientTask ''X'' (NewModifyTask ''t1'' 1 7 False True) 2000
                     (Subscribe ''t1'' ?w1)) = None"
    by (simp add: PushCaptureClientTask_def Subscribe_def split_beta admit_unfold
          count_of_def Incr_def Expire_def issue_def getLock_def world0_def galactus3_def
          after_incr_def logmsg_def)
  have tr: "trace (snd (attemptOnCaptureBot galactus3 ''g'' ''X'' 1 2000 ?rq ''t1''
                          (Received ''true'') world0)) =
     [INCR ''g'' ''X'', EXPIRE ''g'' ''X'' 5000, SUBSCRIBE ''t1'',
      PUSH_TASK ''X'' (NewModifyTask ''t1'' 1 7 False True) 2000,
      PUBSUB_CLOSE ''t1'', PUBSUB_CLOSE ''t1'']"
    by (simp add: attemptOnCaptureBot_def Let_def Subscribe_def PushCaptureClientTask_def
          waitForAck_def NewModifyTask_def admit_defs world0_def galactus3_def extern_def)
  show ?thesis
    using capture_subscribes_before_push
            [OF h, of 1 2000 ?rq "''t1''" "Received ''true''" world0]
          capture_subscribes_before_push
            [OF h, of 1 2000 ?rq "''t1''" TimerFired world0]
          capture_subscribes_before_push
            [OF h, of 1 2000 ?rq "''t1''" "Received ''false''" world0]
          h push tr
    by simp
qed

subsection \<open>Serialization failures in the event handlers\<close>

text \<open>
  C7. An event whose JSON serialization fails, sent by another user in a guild with an
  active game: \<open>VoiceStateUpdateHandler\<close> logs the error and goes on to push a job with
  an empty payload onto the shared job list; \<open>GuildDeleteHandler\<close> does the same. The
  event is not dropped.
\<close>

theorem marshal_failure_still_pushes:
  "jobs (VoiceStateUpdateHandler marshal_fails always_active ''bot'' (Some event0) world0) =
     [(VoiceStateUpdate, '''')] \<and>
   logs (VoiceStateUpdateHandler marshal_fails always_active ''bot'' (Some event0) world0) =
     [LogError ''error marshalling json for VoiceStateUpdate message'',
      LogInfo ''pushed discord message to Redis''] \<and>
   jobs (GuildDeleteHandler marshal_fails \<lparr>gdID = ''g''\<rparr> world0) = [(GuildDelete, '''')] \<and>
   logs (GuildDeleteHandler marshal_fails \<lparr>gdID = ''g''\<rparr> world0) =
     [LogError ''error marshalling json for GuildDelete message'',
      LogInfo ''received GuildDelete message'']"
  by (simp add: VoiceStateUpdateHandler_def GuildDeleteHandler_def PushDiscordMessage_def
        marshal_fails_def always_active_def event0_def world0_def issue_def logmsg_def
        extern_def Let_def)

subsection \<open>The answers of the job long-poll\<close>

text \<open>
  C8, as amended. The request-job handler maps the outcome of the blocking pop as
  follows: \<open>redis.Nil\<close> gives status 202 with the body
  \<open>{"status": "No jobs available"}\<close> (a space after the colon); any other error gives
  status 500 with the body \<open>{"error": "\<close>, the error's message, \<open>"}\<close>; an empty string
  with no error gives status 500; a value gives status 200 with the value as the body.
\<close>

theorem requestJob_outcomes:
  assumes \<open>PopRawDiscordMessageTimeout timeout w = ((msg, err), w1)\<close>
  shows \<open>(err = Some RedisNil \<longrightarrow>
            fst (requestJobHandler PopRawDiscordMessageTimeout writeErr timeout w) =
              \<lparr>status = 202, body = ''{"status": "No jobs available"}''\<rparr>) \<and>
         (\<forall>e. err = Some (RedisErr e) \<longrightarrow>
            fst (requestJobHandler PopRawDiscordMessageTimeout writeErr timeout w) =
              \<lparr>status = 500, body = ''{"error": "'' @ e @ ''"}''\<rparr>) \<and>
         (err = None \<and> msg = '''' \<longrightarrow>
            status (fst (requestJobHandler PopRawDiscordMessageTimeout writeErr timeout w)) =
              500) \<and>
         (err = None \<and> msg \<noteq> '''' \<longrightarrow>
            fst (requestJobHandler PopRawDiscordMessageTimeout writeErr timeout w) =
              \<lparr>status = 200, body = msg\<rparr>)\<close>
  using assms by (simp add: requestJobHandler_def)

theorem requestJob_outcomes_witness:
  \<open>fst (requestJobHandler (pop_const ('''', Some RedisNil)) None 1000 world0) =
     \<lparr>status = 202, body = ''{"status": "No jobs available"}''\<rparr> \<and>
   fst (requestJobHandler (pop_const ('''', Some (RedisErr ''EOF''))) None 1000 world0) =
     \<lparr>status = 500, body = ''{"error": "EOF"}''\<rparr> \<and>
   status (fst (requestJobHandler (pop_const ('''', None)) None 1000 world0)) = 500 \<and>
   fst (requestJobHandler (pop_const (''job'', None)) None 1000 world0) =
     \<lparr>status = 200, body = ''job''\<rparr>\<close>
proof -
  have p1: "pop_const ('''', Some RedisNil) 1000 world0 = (('''', Some RedisNil), world0)"
    and p2: "pop_const ('''', Some (RedisErr ''EOF'')) 1000 world0 =
               (('''', Some (RedisErr ''EOF'')), world0)"
    and p3: "pop_const ('''', None) 1000 world0 = (('''', None), world0)"
    and p4: "pop_const (''job'', None) 1000 world0 = ((''job'', None), world0)"
    by (simp_all add: pop_const_def)
  show ?thesis
    using requestJob_outcomes
            [where PopRawDiscordMessageTimeout = "pop_const ('''', Some RedisNil)"
               and writeErr = None, OF p1]
          requestJob_outcomes
            [where PopRawDiscordMessageTimeout = "pop_const ('''', Some (RedisErr ''EOF''))"
               and writeErr = None, OF p2]
          requestJob_outcomes
            [where PopRawDiscordMessageTimeout = "pop_const ('''', None)"
               and writeErr = None, OF p3]
          requestJob_outcomes
            [where PopRawDiscordMessageTimeout = "pop_const (''job'', None)"
               and writeErr = None, OF p4]
    by simp
qed

text \<open>
  On an empty pop the body is not the string \<open>{"status":"No jobs available"}\<close>.
\<close>

theorem requestJob_outcomes_counterexample:
  \<open>status (fst (requestJobHandler (pop_const ('''', Some RedisNil)) None 1000 world0)) = 202 \<and>
   body (fst (requestJobHandler (pop_const ('''', Some RedisNil)) None 1000 world0)) \<noteq>
     ''{"status":"No jobs available"}''\<close>
  by (simp add: requestJobHandler_def pop_const_def)

subsection \<open>Token locks\<close>

lemma SAdd_simps [simp]:
  "trace (snd (SAdd guildID member w)) = trace w @ [SADD guildID member]"
  "tokenLocks (snd (SAdd guildID member w)) = tokenLocks w"
  by (simp_all add: SAdd_def split_beta)

lemma addGuilds_tokenLocks [simp]:
  "tokenLocks (addGuilds hashedToken vs w) = tokenLocks w"
proof (induction vs arbitrary: w)
  case Nil
  then show ?case by simp
next
  case (Cons v vs)
  obtain r w1 where s: "SAdd v hashedToken w = (r, w1)"
    by (cases "SAdd v hashedToken w")
  have "tokenLocks w1 = tokenLocks w"
    using SAdd_simps(2) [of v hashedToken w] s by simp
  then show ?case
    using s Cons.IH by (simp split: option.splits rerror.splits)
qed

lemma addGuilds_lock_trace [simp]:
  "LOCK_FOR_TOKEN t \<in> set (trace (addGuilds hashedToken vs w)) \<longleftrightarrow>
   LOCK_FOR_TOKEN t \<in> set (trace w)"
proof (induction vs arbitrary: w)
  case Nil
  then show ?case by simp
next
  case (Cons v vs)
  obtain r w1 where s: "SAdd v hashedToken w = (r, w1)"
    by (cases "SAdd v hashedToken w")
  have "trace w1 = trace w @ [SADD v hashedToken]"
    using SAdd_simps(1) [of v hashedToken w] s by simp
  then show ?case
    using s Cons.IH by (simp split: option.splits rerror.splits)
qed

lemma LockForToken_simps [simp]:
  "tokenLocks (LockForToken t w) = insert t (tokenLocks w)"
  "trace (LockForToken t w) = trace w @ [LOCK_FOR_TOKEN t]"
  by (simp_all add: LockForToken_def)











end
